theory Spec2Isabelle
  imports
    Complex_Main
    "HOL-Library.Product_Lexorder"
    "HOL-Library.Char_ord"
    "HOL-Library.List_Lexorder"
    "HOL-Library.Sublist"
    "HOL-Library.Multiset"
begin

section \<open>Data frames of the GNS processing scripts\<close>

text \<open>
  The scripts work on pandas data frames. A frame is modelled as the list of its rows, a
  row as a record with one field per column, and a cell as an \<open>option\<close>: \<open>None\<close> is
  pandas' missing value (NaN). The columns \<open>lat_dd\<close>, \<open>long_dd\<close> and \<open>name_rank\<close> are
  read through \<open>pd.to_numeric(..., errors='coerce')\<close>; a present cell of such a column is
  either text that reads as a number (\<open>Number q\<close>, \<open>q\<close> the number read) or text that does
  not (\<open>Malformed s\<close>). Numbers are rationals: only their order matters below, and
  the infinities that \<open>to_numeric\<close> also reads are left out. The other columns hold
  strings or, for the two identifiers, integers; the column types that pandas infers for
  a whole file are not part of the model. Columns of the input file that no later step
  reads (\<open>rk\<close>, \<open>fc\<close>, the date columns) are left out.
\<close>

datatype numtext = Number rat | Malformed string

fun to_numeric :: "numtext option \<Rightarrow> rat option" where
  "to_numeric None = None"
| "to_numeric (Some (Number q)) = Some q"
| "to_numeric (Some (Malformed s)) = None"

record admin_row =
  ufi :: "int option"
  uni :: "int option"
  full_name :: "string option"
  nt :: "string option"
  lat_dd :: "numtext option"
  long_dd :: "numtext option"
  desig_cd :: "string option"
  cc_ft :: "string option"
  adm1 :: "string option"
  name_rank :: "numtext option"
  lang_cd :: "string option"
  transl_cd :: "string option"
  script_cd :: "string option"
  display :: "string option"
  generic :: "string option"

text \<open>
  A row of \<open>admin_filtered\<close> once the three priority columns have been added to it.
\<close>

record scored_row =
  row :: admin_row
  nt_priority :: rat
  name_rank_num :: rat
  lang_priority :: int

text \<open>
  The two scripts that define \<open>process_gns_administrative_data\<close>:
  \<open>process_all_administrative_levels.py\<close> (\<open>Full\<close>) and
  \<open>process_all_admin_levels_simple.py\<close> (\<open>Simple\<close>).
\<close>

datatype script = Full | Simple

subsection \<open>Filters\<close>

definition adm_prefixes :: "string list" where
  "adm_prefixes = [''ADM1'', ''ADM2'', ''ADM3'', ''ADM4'', ''ADMD'']"

text \<open>\<open>admin_df['desig_cd'].str.startswith((...), na=False)\<close>\<close>

definition adm_mask :: "admin_row \<Rightarrow> bool" where
  "adm_mask r = (case desig_cd r of None \<Rightarrow> False
                 | Some s \<Rightarrow> list_ex (\<lambda>p. prefix p s) adm_prefixes)"

text \<open>\<open>str.upper()\<close> on the ASCII letters; every other character is kept.\<close>

definition upper_char :: "char \<Rightarrow> char" where
  "upper_char c = (if CHR ''a'' \<le> c \<and> c \<le> CHR ''z''
                   then char_of (of_char c - (32::nat)) else c)"

definition upper :: "string \<Rightarrow> string" where
  "upper s = map upper_char s"

text \<open>\<open>admin_filtered['display'].fillna('').str.upper() == 'Y'\<close>\<close>

definition display_is_Y :: "admin_row \<Rightarrow> bool" where
  "display_is_Y r = (upper (case display r of None \<Rightarrow> [] | Some s \<Rightarrow> s) = ''Y'')"

text \<open>\<open>admin_filtered['display'].notna() & (admin_filtered['display'] != '')\<close>\<close>

definition display_nonempty :: "admin_row \<Rightarrow> bool" where
  "display_nonempty r = (display r \<noteq> None \<and> display r \<noteq> Some [])"

text \<open>
  Both display filters stand under \<open>if 'display' in admin_filtered.columns\<close>; the
  argument \<open>display_col\<close> says whether the frame has that column. The full script
  applies the strict filter and then the non-empty one, the simple script only the latter.
\<close>

definition display_filter :: "script \<Rightarrow> bool \<Rightarrow> admin_row list \<Rightarrow> admin_row list" where
  "display_filter sc display_col rs =
     (case sc of
        Full \<Rightarrow>
          (let rs1 = (if display_col then filter display_is_Y rs else rs)
           in if display_col then filter display_nonempty rs1 else rs1)
      | Simple \<Rightarrow> (if display_col then filter display_nonempty rs else rs))"

text \<open>
  \<open>pd.to_numeric(lat_dd, errors='coerce').notna() & pd.to_numeric(long_dd, errors='coerce').notna()\<close>
\<close>

definition coord_mask :: "admin_row \<Rightarrow> bool" where
  "coord_mask r = (to_numeric (lat_dd r) \<noteq> None \<and> to_numeric (long_dd r) \<noteq> None)"

subsection \<open>Priority columns\<close>

text \<open>\<open>admin_filtered['nt'].map({'N': 1, 'C': 2, 'D': 3, 'V': 4}).fillna(999)\<close>\<close>

definition name_type_priority :: "string \<rightharpoonup> rat" where
  "name_type_priority = [''N'' \<mapsto> 1, ''C'' \<mapsto> 2, ''D'' \<mapsto> 3, ''V'' \<mapsto> 4]"

definition nt_priority_of :: "admin_row \<Rightarrow> rat" where
  "nt_priority_of r =
     (case (case nt r of None \<Rightarrow> None | Some s \<Rightarrow> name_type_priority s) of
        None \<Rightarrow> 999 | Some p \<Rightarrow> p)"

text \<open>\<open>pd.to_numeric(admin_filtered['name_rank'], errors='coerce').fillna(999)\<close>\<close>

definition name_rank_num_of :: "admin_row \<Rightarrow> rat" where
  "name_rank_num_of r = (case to_numeric (name_rank r) of None \<Rightarrow> 999 | Some q \<Rightarrow> q)"

definition common_local_langs :: "string list" where
  "common_local_langs =
     [''spa'', ''fra'', ''deu'', ''ita'', ''por'', ''rus'', ''ara'', ''zho'', ''jpn'', ''hin'']"

text \<open>
  Full: \<open>1 if x == 'eng' else (2 if x in common_local_langs else 3)\<close>;
  simple: \<open>1 if x == 'eng' else 2\<close>. A missing \<open>lang_cd\<close> equals no string.
\<close>

definition lang_priority_of :: "script \<Rightarrow> admin_row \<Rightarrow> int" where
  "lang_priority_of sc r =
     (case sc of
        Full \<Rightarrow> (if lang_cd r = Some ''eng'' then 1
                 else if (case lang_cd r of None \<Rightarrow> False
                          | Some x \<Rightarrow> x \<in> set common_local_langs) then 2 else 3)
      | Simple \<Rightarrow> (if lang_cd r = Some ''eng'' then 1 else 2))"

definition add_priorities :: "script \<Rightarrow> admin_row \<Rightarrow> scored_row" where
  "add_priorities sc r =
     \<lparr> row = r, nt_priority = nt_priority_of r, name_rank_num = name_rank_num_of r,
       lang_priority = lang_priority_of sc r \<rparr>"

text \<open>
  \<open>admin_filtered\<close> as it stands just before the sort. The full script adds the
  priority columns before the coordinate filter, the simple script after it.
\<close>

definition admin_filtered :: "script \<Rightarrow> bool \<Rightarrow> admin_row list \<Rightarrow> scored_row list" where
  "admin_filtered sc display_col admin_df =
     (case sc of
        Full \<Rightarrow>
          filter (\<lambda>s. coord_mask (row s))
            (map (add_priorities Full) (display_filter Full display_col (filter adm_mask admin_df)))
      | Simple \<Rightarrow>
          map (add_priorities Simple)
            (filter coord_mask (display_filter Simple display_col (filter adm_mask admin_df))))"

subsection \<open>Sorting and deduplication\<close>

text \<open>
  \<open>sort_values(['ufi', 'nt_priority', 'name_rank_num', 'lang_priority'])\<close>: a sort on
  several columns is pandas' lexicographic sort, which is stable, ascending, and puts
  missing keys last. \<open>sort_key\<close> is a stable insertion sort.
\<close>

definition nan_last :: "'a option \<Rightarrow> 'a \<Rightarrow> bool \<times> 'a" where
  "nan_last c d = (case c of None \<Rightarrow> (True, d) | Some v \<Rightarrow> (False, v))"

definition priority_key :: "scored_row \<Rightarrow> rat \<times> rat \<times> int" where
  "priority_key s = (nt_priority s, name_rank_num s, lang_priority s)"

definition sort_cols :: "scored_row \<Rightarrow> (bool \<times> int) \<times> rat \<times> rat \<times> int" where
  "sort_cols s = (nan_last (ufi (row s)) 0, priority_key s)"

definition sort_values :: "scored_row list \<Rightarrow> scored_row list" where
  "sort_values xs = sort_key sort_cols xs"

text \<open>
  \<open>groupby('ufi').first().reset_index()\<close>. The groups are the distinct present values
  of \<open>ufi\<close> in ascending order (rows with a missing key belong to no group); the rows of
  a group keep the order of the frame. \<open>first()\<close> computes, for each column on its own,
  the first value of the group that is not missing.
\<close>

fun first_valid :: "('r \<Rightarrow> 'a option) \<Rightarrow> 'r list \<Rightarrow> 'a option" where
  "first_valid col [] = None"
| "first_valid col (x # xs) = (case col x of Some v \<Rightarrow> Some v | None \<Rightarrow> first_valid col xs)"

definition group_keys :: "scored_row list \<Rightarrow> int list" where
  "group_keys xs = sort (remdups (List.map_filter (\<lambda>s. ufi (row s)) xs))"

definition group_rows :: "int \<Rightarrow> scored_row list \<Rightarrow> scored_row list" where
  "group_rows k xs = filter (\<lambda>s. ufi (row s) = Some k) xs"

definition first_of_group :: "int \<Rightarrow> scored_row \<Rightarrow> scored_row list \<Rightarrow> scored_row" where
  "first_of_group k s g =
     \<lparr> row =
         \<lparr> ufi = Some k,
           uni = first_valid (\<lambda>t. uni (row t)) (s # g),
           full_name = first_valid (\<lambda>t. full_name (row t)) (s # g),
           nt = first_valid (\<lambda>t. nt (row t)) (s # g),
           lat_dd = first_valid (\<lambda>t. lat_dd (row t)) (s # g),
           long_dd = first_valid (\<lambda>t. long_dd (row t)) (s # g),
           desig_cd = first_valid (\<lambda>t. desig_cd (row t)) (s # g),
           cc_ft = first_valid (\<lambda>t. cc_ft (row t)) (s # g),
           adm1 = first_valid (\<lambda>t. adm1 (row t)) (s # g),
           name_rank = first_valid (\<lambda>t. name_rank (row t)) (s # g),
           lang_cd = first_valid (\<lambda>t. lang_cd (row t)) (s # g),
           transl_cd = first_valid (\<lambda>t. transl_cd (row t)) (s # g),
           script_cd = first_valid (\<lambda>t. script_cd (row t)) (s # g),
           display = first_valid (\<lambda>t. display (row t)) (s # g),
           generic = first_valid (\<lambda>t. generic (row t)) (s # g) \<rparr>,
       nt_priority = nt_priority s,
       name_rank_num = name_rank_num s,
       lang_priority = lang_priority s \<rparr>"

text \<open>
  The priority columns hold no missing value, so their first valid entry is that of the
  first row of the group. A key of \<open>group_keys\<close> always has a row; the empty case is
  written out to keep the function total.
\<close>

definition groupby_first :: "scored_row list \<Rightarrow> scored_row list" where
  "groupby_first xs =
     concat (map (\<lambda>k. case group_rows k xs of [] \<Rightarrow> [] | s # g \<Rightarrow> [first_of_group k s g])
                 (group_keys xs))"

definition admin_deduplicated :: "script \<Rightarrow> bool \<Rightarrow> admin_row list \<Rightarrow> scored_row list" where
  "admin_deduplicated sc display_col admin_df =
     groupby_first (sort_values (admin_filtered sc display_col admin_df))"

subsection \<open>Coordinates and country information\<close>

text \<open>
  The full script converts the coordinates of the deduplicated rows and checks them once
  more (\<open>admin_coords = admin_deduplicated[coord_mask]\<close>); the simple script merges
  \<open>admin_deduplicated\<close> as it is.
\<close>

definition admin_coords :: "script \<Rightarrow> bool \<Rightarrow> admin_row list \<Rightarrow> scored_row list" where
  "admin_coords sc display_col admin_df =
     (case sc of
        Full \<Rightarrow> filter (\<lambda>d. to_numeric (lat_dd (row d)) \<noteq> None \<and>
                             to_numeric (long_dd (row d)) \<noteq> None)
                  (admin_deduplicated Full display_col admin_df)
      | Simple \<Rightarrow> admin_deduplicated Simple display_col admin_df)"

text \<open>A row of \<open>countries_df[['Country_Code', 'Short_Name', 'Full_Name']]\<close>.\<close>

record country =
  Country_Code :: "string option"
  Short_Name :: "string option"
  Full_Name :: "string option"

text \<open>
  \<open>merge(..., left_on='cc_ft', right_on='Country_Code', how='left')\<close>: every left row,
  in order, once for each reference row with an equal key, in the order of the reference;
  a left row with no equal key appears once, with missing reference columns. A missing
  key equals a missing key.
\<close>

definition merge_left :: "scored_row list \<Rightarrow> country list \<Rightarrow> (scored_row \<times> country option) list" where
  "merge_left ds countries_df =
     concat (map (\<lambda>d. case filter (\<lambda>c. Country_Code c = cc_ft (row d)) countries_df of
                         [] \<Rightarrow> [(d, None)]
                       | ms \<Rightarrow> map (\<lambda>c. (d, Some c)) ms) ds)"

text \<open>
  A row of \<open>output_df\<close>, after the renaming and the selection of the final columns. The
  column \<open>Country_Code\<close> of the output is the one that the merge brought from the
  reference (named \<open>Country_Code_out\<close> here, the name being taken by the reference).
\<close>

record division =
  Country_Code_out :: "string option"
  Country_Name :: "string option"
  Country_Full_Name :: "string option"
  Administrative_Level :: "string option"
  Administrative_Name :: "string option"
  ADM1_Code :: "string option"
  latitude :: "rat option"
  longitude :: "rat option"
  Unique_Feature_ID :: "int option"
  Unique_Name_ID :: "int option"
  Name_Type :: "string option"
  Name_Rank :: "numtext option"
  Language_Code :: "string option"
  Transliteration_Code :: "string option"
  Script_Code :: "string option"
  Generic_Term :: "string option"

definition ref_col :: "(country \<Rightarrow> string option) \<Rightarrow> country option \<Rightarrow> string option" where
  "ref_col col c = (case c of None \<Rightarrow> None | Some c' \<Rightarrow> col c')"

definition to_division :: "scored_row \<times> country option \<Rightarrow> division" where
  "to_division dc =
     (case dc of (d, c) \<Rightarrow>
        \<lparr> Country_Code_out = ref_col Country_Code c,
          Country_Name = ref_col Short_Name c,
          Country_Full_Name = ref_col Full_Name c,
          Administrative_Level = desig_cd (row d),
          Administrative_Name = full_name (row d),
          ADM1_Code = adm1 (row d),
          latitude = to_numeric (lat_dd (row d)),
          longitude = to_numeric (long_dd (row d)),
          Unique_Feature_ID = ufi (row d),
          Unique_Name_ID = uni (row d),
          Name_Type = nt (row d),
          Name_Rank = name_rank (row d),
          Language_Code = lang_cd (row d),
          Transliteration_Code = transl_cd (row d),
          Script_Code = script_cd (row d),
          Generic_Term = generic (row d) \<rparr>)"

text \<open>\<open>sort_values(['Country_Name', 'Administrative_Level', 'Administrative_Name'])\<close>\<close>

definition output_cols :: "division \<Rightarrow> (bool \<times> string) \<times> (bool \<times> string) \<times> (bool \<times> string)" where
  "output_cols d =
     (nan_last (Country_Name d) [], nan_last (Administrative_Level d) [],
      nan_last (Administrative_Name d) [])"

definition output_df :: "script \<Rightarrow> bool \<Rightarrow> admin_row list \<Rightarrow> country list \<Rightarrow> division list" where
  "output_df sc display_col admin_df countries_df =
     sort_key output_cols
       (map to_division (merge_left (admin_coords sc display_col admin_df) countries_df))"

subsection \<open>Report views\<close>

text \<open>
  One sheet for each level of \<open>['ADM1', 'ADM2', 'ADM3', 'ADM4', 'ADMD']\<close> whose rows
  (\<open>output_df[output_df['Administrative_Level'] == level]\<close>) are not empty.
\<close>

definition level_sheets :: "division list \<Rightarrow> (string \<times> division list) list" where
  "level_sheets out =
     filter (\<lambda>(level, level_data). level_data \<noteq> [])
       (map (\<lambda>level. (level, filter (\<lambda>d. Administrative_Level d = Some level) out))
            adm_prefixes)"

text \<open>
  \<open>groupby(['Country_Code', 'Country_Name', 'Administrative_Level']).size()\<close>: the
  groups are the distinct key triples, in ascending order, of the rows in which none of
  the three keys is missing.
\<close>

definition summary_key :: "division \<Rightarrow> (string \<times> string \<times> string) option" where
  "summary_key d =
     (case (Country_Code_out d, Country_Name d, Administrative_Level d) of
        (Some c, Some n, Some l) \<Rightarrow> Some (c, n, l)
      | _ \<Rightarrow> None)"

definition country_summary :: "division list \<Rightarrow> ((string \<times> string \<times> string) \<times> int) list" where
  "country_summary out =
     map (\<lambda>k. (k, int (length (filter (\<lambda>d. summary_key d = Some k) out))))
         (sort (remdups (List.map_filter summary_key out)))"

text \<open>
  A row of the pivot: the index \<open>(Country_Code, Country_Name)\<close>, one count for each
  level column, and the column \<open>Total\<close>.
\<close>

record pivot_row =
  pivot_Country_Code :: string
  pivot_Country_Name :: string
  level_counts :: "(string \<times> int) list"
  Total :: int

text \<open>
  \<open>pivot(index=[...], columns='Administrative_Level', values='Count').fillna(0).astype(int)\<close>,
  then \<open>country_pivot['Total'] = country_pivot.sum(axis=1)\<close>.
\<close>

definition pivot_value :: "((string \<times> string \<times> string) \<times> int) list \<Rightarrow> string \<times> string \<Rightarrow> string \<Rightarrow> int" where
  "pivot_value summary idx level =
     (case map_of summary (fst idx, snd idx, level) of None \<Rightarrow> 0 | Some n \<Rightarrow> n)"

definition country_pivot :: "division list \<Rightarrow> pivot_row list" where
  "country_pivot out =
     (let summary = country_summary out;
          index = sort (remdups (map (\<lambda>((c, n, l), cnt). (c, n)) summary));
          columns = sort (remdups (map (\<lambda>((c, n, l), cnt). l) summary))
      in map (\<lambda>idx.
                (let counts = map (\<lambda>level. (level, pivot_value summary idx level)) columns
                 in \<lparr> pivot_Country_Code = fst idx, pivot_Country_Name = snd idx,
                      level_counts = counts, Total = sum_list (map snd counts) \<rparr>))
             index)"

text \<open>
  \<open>country_pivot.sort_values('Total', ascending=False)\<close> sorts on one column with the
  default \<open>kind='quicksort'\<close>, which is not a stable sort: the call fixes the rows and
  their order by \<open>Total\<close>, and leaves open the order of rows with equal \<open>Total\<close>. The
  sort is therefore a relation between the pivot and what may come out of it.
\<close>

definition sort_values_Total :: "pivot_row list \<Rightarrow> pivot_row list \<Rightarrow> bool" where
  "sort_values_Total pivot sorted_pivot \<longleftrightarrow>
     mset sorted_pivot = mset pivot \<and> sorted_wrt (\<lambda>a b. Total b \<le> Total a) sorted_pivot"

text \<open>\<open>country_pivot.head(30)\<close>\<close>

definition top_countries :: "pivot_row list \<Rightarrow> pivot_row list" where
  "top_countries sorted_pivot = take 30 sorted_pivot"


section \<open>The per-country splitter (\<open>split_by_country.py\<close>)\<close>










section \<open>The subdivision query tool (\<open>query_subdivisions.py\<close>)\<close>

text \<open>A row of the merged frame that \<open>load_data\<close> returns.\<close>

record subdivision =
  Country_Code_sub :: "string option"
  Country_Short_Name :: "string option"
  Country_Full_Name_sub :: "string option"
  Subdivision_Code :: "string option"
  Subdivision_Name :: "string option"

text \<open>
  \<open>Series.str.contains(pat, na=False)\<close> reads \<open>pat\<close> as a regular expression and raises
  \<open>re.error\<close> when it is not one. The regular-expression library and Python's
  \<open>str.upper\<close> are arguments of the model: \<open>re_compile pat\<close> is \<open>None\<close> for a pattern
  that does not compile, and otherwise the search predicate on a text.
\<close>

datatype error = ReError

definition str_contains :: "(string \<Rightarrow> (string \<Rightarrow> bool) option) \<Rightarrow> (string \<Rightarrow> string) \<Rightarrow>
    (subdivision \<Rightarrow> string option) \<Rightarrow> subdivision list \<Rightarrow> string \<Rightarrow> error + subdivision list" where
  "str_contains re_compile str_upper col df pat =
     (case re_compile pat of
        None \<Rightarrow> Inl ReError
      | Some search \<Rightarrow>
          Inr (filter (\<lambda>r. case col r of None \<Rightarrow> False | Some s \<Rightarrow> search (str_upper s)) df))"

definition search_country :: "(string \<Rightarrow> (string \<Rightarrow> bool) option) \<Rightarrow> (string \<Rightarrow> string) \<Rightarrow>
    subdivision list \<Rightarrow> string \<Rightarrow> error + subdivision list" where
  "search_country re_compile str_upper df query =
     (let query_upper = str_upper query;
          country_code_match = filter (\<lambda>r. Country_Code_sub r = Some query_upper) df
      in if country_code_match \<noteq> [] then Inr country_code_match
         else
           (case str_contains re_compile str_upper Country_Short_Name df query_upper of
              Inl e \<Rightarrow> Inl e
            | Inr name_match \<Rightarrow>
                if name_match \<noteq> [] then Inr name_match
                else
                  (case str_contains re_compile str_upper Country_Full_Name_sub df query_upper of
                     Inl e \<Rightarrow> Inl e
                   | Inr full_name_match \<Rightarrow>
                       if full_name_match \<noteq> [] then Inr full_name_match else Inr [])))"

section \<open>Notions used in the statements\<close>

text \<open>
  A raw row survives when it passes the level filter, the display filters of the script
  (when the frame has a \<open>display\<close> column) and the coordinate filter.
\<close>

definition survives :: "script \<Rightarrow> bool \<Rightarrow> admin_row \<Rightarrow> bool" where
  "survives sc display_col r \<longleftrightarrow>
     adm_mask r \<and>
     (if display_col
      then display_nonempty r \<and> (if sc = Full then display_is_Y r else True)
      else True) \<and>
     coord_mask r"



subsection \<open>Example rows\<close>

text \<open>
  Two name variants of feature 100: a variant name of rank 1 in English, and an approved
  name of rank 5 in French whose \<open>generic\<close> cell is missing.
\<close>

definition example_variant :: admin_row where
  "example_variant =
     \<lparr> ufi = Some 100, uni = Some 1, full_name = Some ''Alpha'', nt = Some ''V'',
       lat_dd = Some (Number 1), long_dd = Some (Number 2), desig_cd = Some ''ADM1'',
       cc_ft = Some ''ZZ'', adm1 = Some ''01'', name_rank = Some (Number 1),
       lang_cd = Some ''eng'', transl_cd = None, script_cd = None, display = Some ''Y'',
       generic = Some ''province'' \<rparr>"

definition example_approved :: admin_row where
  "example_approved =
     \<lparr> ufi = Some 100, uni = Some 2, full_name = Some ''Beta'', nt = Some ''N'',
       lat_dd = Some (Number 1), long_dd = Some (Number 2), desig_cd = Some ''ADM1'',
       cc_ft = Some ''ZZ'', adm1 = Some ''01'', name_rank = Some (Number 5),
       lang_cd = Some ''fra'', transl_cd = None, script_cd = None, display = Some ''Y'',
       generic = None \<rparr>"

text \<open>Two approved names of feature 200 with the same rank and language.\<close>

definition example_tie_first :: admin_row where
  "example_tie_first =
     \<lparr> ufi = Some 200, uni = Some 3, full_name = Some ''Gamma'', nt = Some ''N'',
       lat_dd = Some (Number 3), long_dd = Some (Number 4), desig_cd = Some ''ADM2'',
       cc_ft = Some ''ZZ'', adm1 = Some ''01'', name_rank = Some (Number 1),
       lang_cd = Some ''eng'', transl_cd = None, script_cd = None, display = Some ''Y'',
       generic = None \<rparr>"


text \<open>A row of feature 400 that passes the level filter and has an empty \<open>display\<close>.\<close>

definition example_hidden :: admin_row where
  "example_hidden =
     \<lparr> ufi = Some 400, uni = Some 7, full_name = Some ''Eta'', nt = Some ''N'',
       lat_dd = Some (Number 5), long_dd = Some (Number 6), desig_cd = Some ''ADM1'',
       cc_ft = Some ''ZZ'', adm1 = Some ''02'', name_rank = Some (Number 1),
       lang_cd = Some ''eng'', transl_cd = None, script_cd = None, display = Some [],
       generic = None \<rparr>"

text \<open>
  Two approved names of feature 300: one whose rank does not read as a number, one of
  rank 1000.
\<close>

definition example_no_rank :: admin_row where
  "example_no_rank =
     \<lparr> ufi = Some 300, uni = Some 5, full_name = Some ''Epsilon'', nt = Some ''N'',
       lat_dd = Some (Number 5), long_dd = Some (Number 6), desig_cd = Some ''ADM3'',
       cc_ft = Some ''ZZ'', adm1 = Some ''02'', name_rank = Some (Malformed ''first''),
       lang_cd = Some ''eng'', transl_cd = None, script_cd = None, display = Some ''Y'',
       generic = None \<rparr>"

definition example_rank_1000 :: admin_row where
  "example_rank_1000 =
     \<lparr> ufi = Some 300, uni = Some 6, full_name = Some ''Zeta'', nt = Some ''N'',
       lat_dd = Some (Number 5), long_dd = Some (Number 6), desig_cd = Some ''ADM3'',
       cc_ft = Some ''ZZ'', adm1 = Some ''02'', name_rank = Some (Number 1000),
       lang_cd = Some ''eng'', transl_cd = None, script_cd = None, display = Some ''Y'',
       generic = None \<rparr>"

text \<open>Reference rows: two rows for the code \<open>ZZ\<close>, and one for another code.\<close>

definition example_country :: country where
  "example_country = \<lparr> Country_Code = Some ''ZZ'', Short_Name = Some ''Zedland'',
                        Full_Name = Some ''Republic of Zedland'' \<rparr>"




definition example_subdivision :: "string \<Rightarrow> string \<Rightarrow> string \<Rightarrow> subdivision" where
  "example_subdivision code name sub =
     \<lparr> Country_Code_sub = Some code, Country_Short_Name = Some name,
       Country_Full_Name_sub = Some name, Subdivision_Code = Some sub,
       Subdivision_Name = Some ''Subdivision'' \<rparr>"

section \<open>Filtering, sorting and grouping\<close>

lemmas eval_defs =
  admin_filtered_def display_filter_def adm_mask_def adm_prefixes_def display_is_Y_def
  upper_def upper_char_def display_nonempty_def coord_mask_def add_priorities_def
  nt_priority_of_def name_type_priority_def name_rank_num_of_def lang_priority_of_def
  common_local_langs_def sort_values_def sort_cols_def nan_last_def priority_key_def
  group_rows_def

lemma row_add_priorities: "row (add_priorities sc r) = r"
  by (simp add: add_priorities_def)

text \<open>Both scripts keep the surviving rows, in input order, with their priorities.\<close>

lemma admin_filtered_eq:
  "admin_filtered sc dc rs = map (add_priorities sc) (filter (survives sc dc) rs)"
proof (cases sc)
  case Full
  have "filter (\<lambda>s. coord_mask (row s)) (map (add_priorities Full) xs)
        = map (add_priorities Full) (filter coord_mask xs)" for xs
    by (induction xs) (simp_all add: row_add_priorities)
  then show ?thesis using Full
    by (auto simp: admin_filtered_def display_filter_def survives_def Let_def
             intro!: arg_cong[where f="map _"] filter_cong)
next
  case Simple
  then show ?thesis
    by (auto simp: admin_filtered_def display_filter_def survives_def
             intro!: arg_cong[where f="map _"] filter_cong)
qed

lemma filtered_elem:
  "s \<in> set (admin_filtered sc dc rs) \<longleftrightarrow>
   (\<exists>r\<in>set rs. survives sc dc r \<and> s = add_priorities sc r)"
  by (auto simp: admin_filtered_eq)

text \<open>Every value that \<open>first()\<close> returns for a column is a value of that column in the group.\<close>

lemma first_valid_in: "first_valid col xs = Some v \<Longrightarrow> \<exists>x\<in>set xs. col x = Some v"
  by (induction xs) (auto split: option.splits)

lemma set_map_filter_conv: "set (List.map_filter f xs) = {y. \<exists>x\<in>set xs. f x = Some y}"
  by (induction xs) (auto split: option.splits)

lemma group_keys_set: "set (group_keys xs) = {k. \<exists>s\<in>set xs. ufi (row s) = Some k}"
  by (simp add: group_keys_def set_map_filter_conv)

lemma group_keys_distinct: "distinct (group_keys xs)"
  by (simp add: group_keys_def)


lemma ufi_first_of_group: "ufi (row (first_of_group k s g)) = Some k"
  by (simp add: first_of_group_def)


lemma groupby_first_group:
  assumes "group_rows k xs = s # g"
  shows "group_rows k (groupby_first xs) = [first_of_group k s g]"
proof -
  have k_in: "k \<in> set (group_keys xs)"
    using assms by (auto simp: group_keys_set group_rows_def filter_eq_Cons_iff)
  have gen: "group_rows k
               (concat (map (\<lambda>j. case group_rows j xs of [] \<Rightarrow> []
                                 | s # g \<Rightarrow> [first_of_group j s g]) ks))
             = (if k \<in> set ks then [first_of_group k s g] else [])" if "distinct ks" for ks
    using that
  proof (induction ks)
    case Nil
    then show ?case by (simp add: group_rows_def)
  next
    case (Cons j ks)
    show ?case
    proof (cases "j = k")
      case True
      with Cons assms show ?thesis by (simp add: group_rows_def ufi_first_of_group)
    next
      case False
      with Cons show ?thesis
        by (cases "group_rows j xs") (auto simp: group_rows_def ufi_first_of_group)
    qed
  qed
  show ?thesis using gen[OF group_keys_distinct, of xs] k_in by (simp add: groupby_first_def)
qed

lemma groupby_first_elem:
  assumes "d \<in> set (groupby_first xs)"
  shows "\<exists>k s g. group_rows k xs = s # g \<and> d = first_of_group k s g"
proof -
  from assms obtain k where
    "d \<in> set (case group_rows k xs of [] \<Rightarrow> [] | s # g \<Rightarrow> [first_of_group k s g])"
    by (auto simp: groupby_first_def)
  then show ?thesis by (cases "group_rows k xs") auto
qed




lemma group_head_facts:
  assumes "group_rows k (sort_values xs) = w # g"
  shows "w \<in> set xs" and "ufi (row w) = Some k"
proof -
  have "w \<in> set (group_rows k (sort_values xs))" using assms by simp
  then show "w \<in> set xs" and "ufi (row w) = Some k"
    by (simp_all add: group_rows_def sort_values_def)
qed



text \<open>A feature with a surviving record has a sorted group.\<close>

lemma surviving_group:
  assumes "r \<in> set rs" and "survives sc dc r" and "ufi r = Some k"
  shows "\<exists>w g. group_rows k (sort_values (admin_filtered sc dc rs)) = w # g"
proof -
  have "add_priorities sc r \<in> set (admin_filtered sc dc rs)"
    using assms(1,2) by (auto simp: filtered_elem)
  then have "add_priorities sc r \<in> set (group_rows k (sort_values (admin_filtered sc dc rs)))"
    using assms(3) by (simp add: group_rows_def sort_values_def row_add_priorities)
  then show ?thesis
    by (cases "group_rows k (sort_values (admin_filtered sc dc rs))") auto
qed



section \<open>Deduplication\<close>

text \<open>The order on priority triples is the lexicographic one.\<close>

lemma priority_key_le_iff:
  "priority_key s \<le> priority_key t \<longleftrightarrow>
     nt_priority s < nt_priority t \<or>
     (nt_priority s = nt_priority t \<and>
        (name_rank_num s < name_rank_num t \<or>
         (name_rank_num s = name_rank_num t \<and> lang_priority s \<le> lang_priority t)))"
  by (auto simp: priority_key_def)





section \<open>The deduplicated frame and its enrichment\<close>

lemmas eval_defs2 = admin_deduplicated_def groupby_first_def group_keys_def first_of_group_def
  admin_coords_def merge_left_def to_division_def ref_col_def output_df_def output_cols_def

lemma dedup_elem:
  assumes "d \<in> set (admin_deduplicated sc dc rs)"
  shows "\<exists>k w g. group_rows k (sort_values (admin_filtered sc dc rs)) = w # g \<and>
                 d = first_of_group k w g \<and> survives sc dc (row w) \<and> row w \<in> set rs"
proof -
  from assms obtain k w g where
    g: "group_rows k (sort_values (admin_filtered sc dc rs)) = w # g" and d: "d = first_of_group k w g"
    unfolding admin_deduplicated_def by (blast dest: groupby_first_elem)
  have "w \<in> set (admin_filtered sc dc rs)" using g by (rule group_head_facts)
  then have "survives sc dc (row w) \<and> row w \<in> set rs"
    by (auto simp: filtered_elem row_add_priorities)
  with g d show ?thesis by blast
qed

lemma dedup_coords:
  assumes "d \<in> set (admin_deduplicated sc dc rs)"
  shows "to_numeric (lat_dd (row d)) \<noteq> None \<and> to_numeric (long_dd (row d)) \<noteq> None"
proof -
  from dedup_elem[OF assms] obtain k w g where
    d: "d = first_of_group k w g" and s: "survives sc dc (row w)" by blast
  from s have c: "to_numeric (lat_dd (row w)) \<noteq> None" "to_numeric (long_dd (row w)) \<noteq> None"
    by (simp_all add: survives_def coord_mask_def)
  obtain la where "lat_dd (row w) = Some la"
    using c(1) by (cases "lat_dd (row w)") simp_all
  moreover obtain lo where "long_dd (row w) = Some lo"
    using c(2) by (cases "long_dd (row w)") simp_all
  ultimately
  have "lat_dd (row d) = lat_dd (row w)" "long_dd (row d) = long_dd (row w)"
    unfolding d by (simp_all add: first_of_group_def)
  with c show ?thesis by simp
qed


lemma admin_coords_eq: "admin_coords sc dc rs = admin_deduplicated sc dc rs"
proof (cases sc)
  case Full
  have "filter (\<lambda>d. to_numeric (lat_dd (row d)) \<noteq> None \<and> to_numeric (long_dd (row d)) \<noteq> None)
          (admin_deduplicated Full dc rs) = admin_deduplicated Full dc rs"
    by (rule filter_True) (use dedup_coords in blast)
  with Full show ?thesis by (simp add: admin_coords_def)
next
  case Simple
  then show ?thesis by (simp add: admin_coords_def)
qed










text \<open>
  Claim C3. \<open>groupby('ufi').first()\<close> takes the first present value of each column on
  its own. For feature 100 the approved name wins, and its \<open>generic\<close> cell is missing,
  so the output row carries the \<open>generic\<close> of the variant name beside the name, type,
  rank and language of the approved one: a row that no input record equals. Both scripts
  do so.
\<close>

theorem first_mixes_variants:
  "map row (admin_deduplicated Full True [example_variant, example_approved])
     = [example_approved\<lparr> generic := Some ''province'' \<rparr>] \<and>
   map row (admin_deduplicated Simple True [example_variant, example_approved])
     = [example_approved\<lparr> generic := Some ''province'' \<rparr>] \<and>
   generic example_approved = None \<and> generic example_variant = Some ''province''"
  by (simp add: eval_defs eval_defs2 example_approved_def example_variant_def)

text \<open>
  When no cell of the winning row is missing, the output row is the winning row.
\<close>

lemma first_of_group_complete:
  assumes "ufi (row w) = Some k"
    and "uni (row w) \<noteq> None" "full_name (row w) \<noteq> None" "nt (row w) \<noteq> None"
    and "lat_dd (row w) \<noteq> None" "long_dd (row w) \<noteq> None" "desig_cd (row w) \<noteq> None"
    and "cc_ft (row w) \<noteq> None" "adm1 (row w) \<noteq> None" "name_rank (row w) \<noteq> None"
    and "lang_cd (row w) \<noteq> None" "transl_cd (row w) \<noteq> None" "script_cd (row w) \<noteq> None"
    and "display (row w) \<noteq> None" "generic (row w) \<noteq> None"
  shows "first_of_group k w g = w"
  using assms by (cases w, cases "row w") (auto simp: first_of_group_def)

section \<open>Unmatched country codes\<close>








section \<open>The display filter\<close>

lemma empty_display_not_survives:
  assumes "display r = None \<or> display r = Some []"
  shows "\<not> survives sc True r"
  using assms by (auto simp: survives_def display_nonempty_def)

text \<open>
  Claim C7. In a frame with a \<open>display\<close> column, a record whose \<open>display\<close> is missing
  or the empty string is no row of \<open>admin_filtered\<close>, whatever its \<open>desig_cd\<close>, and the
  output is the same with and without that record in the input, wherever it stands. The
  level sheets and the country summary, with it the top countries, are computed from
  \<open>output_df\<close> alone and are the same too. (The filter stands under the guard
  \<open>'display' in admin_filtered.columns\<close>; a frame without the column has no display
  flags and is not filtered.)
\<close>

theorem empty_display_dropped:
  assumes "display r = None \<or> display r = Some []"
  shows "(\<forall>s\<in>set (admin_filtered sc True rs). row s \<noteq> r) \<and>
         admin_filtered sc True (xs @ r # ys) = admin_filtered sc True (xs @ ys) \<and>
         output_df sc True (xs @ r # ys) cs = output_df sc True (xs @ ys) cs \<and>
         level_sheets (output_df sc True (xs @ r # ys) cs)
           = level_sheets (output_df sc True (xs @ ys) cs) \<and>
         country_pivot (output_df sc True (xs @ r # ys) cs)
           = country_pivot (output_df sc True (xs @ ys) cs)"
proof (intro conjI ballI)
  have ns: "\<not> survives sc True r" using assms by (rule empty_display_not_survives)
  show "row s \<noteq> r" if "s \<in> set (admin_filtered sc True rs)" for s
    using that ns by (auto simp: filtered_elem row_add_priorities)
  show eq: "admin_filtered sc True (xs @ r # ys) = admin_filtered sc True (xs @ ys)"
    using ns by (simp add: admin_filtered_eq)
  show out: "output_df sc True (xs @ r # ys) cs = output_df sc True (xs @ ys) cs"
    by (simp only: output_df_def admin_coords_eq admin_deduplicated_def eq)
  show "level_sheets (output_df sc True (xs @ r # ys) cs)
        = level_sheets (output_df sc True (xs @ ys) cs)"
    by (simp only: out)
  show "country_pivot (output_df sc True (xs @ r # ys) cs)
        = country_pivot (output_df sc True (xs @ ys) cs)"
    by (simp only: out)
qed

theorem empty_display_dropped_witness:
  "display example_hidden = Some [] \<and>
   adm_mask example_hidden \<and>
   output_df Full True ([example_approved] @ example_hidden # [example_tie_first]) [example_country]
     = output_df Full True ([example_approved] @ [example_tie_first]) [example_country]"
proof -
  have e: "display example_hidden = Some []"
    by (simp add: example_hidden_def)
  then have h: "display example_hidden = None \<or> display example_hidden = Some []"
    by simp
  have m: "adm_mask example_hidden"
    by (simp add: adm_mask_def adm_prefixes_def example_hidden_def)
  show ?thesis
    using e m empty_display_dropped[OF h, of Full "[example_approved]" "[example_approved]" "[example_tie_first]" "[example_country]"]
    by simp
qed

section \<open>Ranks that do not read as numbers\<close>

text \<open>
  Claim C8 (amended). A record whose \<open>name_rank\<close> does not read as a number gets the
  rank 999. It is ranked after exactly the numeric ranks below 999. The record stays in
  the run: when it passes the filters it is a row of \<open>admin_filtered\<close> and its feature has
  its output row.
\<close>

theorem missing_rank_is_999:
  assumes "to_numeric (name_rank r) = None"
  shows "name_rank_num (add_priorities sc r) = 999 \<and>
         (\<forall>t q. to_numeric (name_rank t) = Some q \<longrightarrow>
            (name_rank_num (add_priorities sc t) < name_rank_num (add_priorities sc r)
               \<longleftrightarrow> q < 999)) \<and>
         (r \<in> set rs \<and> survives sc dc r \<longrightarrow>
            add_priorities sc r \<in> set (admin_filtered sc dc rs) \<and>
            (\<forall>k. ufi r = Some k \<longrightarrow>
               (\<exists>d. group_rows k (admin_deduplicated sc dc rs) = [d])))"
proof (intro conjI allI impI)
  show r999: "name_rank_num (add_priorities sc r) = 999"
    using assms by (simp add: add_priorities_def name_rank_num_of_def)
  show "name_rank_num (add_priorities sc t) < name_rank_num (add_priorities sc r) \<longleftrightarrow> q < 999"
    if "to_numeric (name_rank t) = Some q" for t q
    using that r999 by (simp add: add_priorities_def name_rank_num_of_def)
  assume a: "r \<in> set rs \<and> survives sc dc r"
  then show in_f: "add_priorities sc r \<in> set (admin_filtered sc dc rs)"
    by (auto simp: filtered_elem)
  fix k assume k: "ufi r = Some k"
  from a k obtain w g where "group_rows k (sort_values (admin_filtered sc dc rs)) = w # g"
    using surviving_group[of r rs sc dc k] by auto
  then have "group_rows k (admin_deduplicated sc dc rs) = [first_of_group k w g]"
    unfolding admin_deduplicated_def by (rule groupby_first_group)
  then show "\<exists>d. group_rows k (admin_deduplicated sc dc rs) = [d]" by blast
qed

theorem missing_rank_is_999_witness:
  "to_numeric (name_rank example_no_rank) = None \<and>
   name_rank_num (add_priorities Full example_no_rank) = 999 \<and>
   add_priorities Full example_no_rank \<in> set (admin_filtered Full True [example_no_rank])"
proof -
  have h: "to_numeric (name_rank example_no_rank) = None"
    by (simp add: example_no_rank_def)
  have s: "survives Full True example_no_rank"
    by (simp add: survives_def eval_defs example_no_rank_def)
  show ?thesis
    using h s missing_rank_is_999[OF h, of Full "[example_no_rank]" True] by simp
qed

text \<open>
  999 is not the worst rank: in feature 300 the name without a numeric rank is sorted
  before the name of rank 1000 and is the one selected.
\<close>

theorem missing_rank_not_worst_counterexample:
  "to_numeric (name_rank example_no_rank) = None \<and>
   to_numeric (name_rank example_rank_1000) = Some 1000 \<and>
   name_rank_num (add_priorities Full example_no_rank)
     < name_rank_num (add_priorities Full example_rank_1000) \<and>
   group_rows 300 (sort_values (admin_filtered Full True [example_rank_1000, example_no_rank]))
     = [add_priorities Full example_no_rank, add_priorities Full example_rank_1000]"
  by (simp add: eval_defs example_no_rank_def example_rank_1000_def)

section \<open>The country summary\<close>


lemma sort_values_Total_exists:
  "sort_values_Total pivot (rev (sort_key Total pivot))"
proof -
  have "sorted (map Total (sort_key Total pivot))" by simp
  then have "sorted_wrt (\<lambda>a b. Total a \<le> Total b) (sort_key Total pivot)"
    by (simp add: sorted_wrt_map)
  then have "sorted_wrt (\<lambda>a b. Total b \<le> Total a) (rev (sort_key Total pivot))"
    by (simp add: sorted_wrt_rev)
  then show ?thesis by (simp add: sort_values_Total_def)
qed











section \<open>Files of the per-country splitter\<close>














section \<open>Country search of the query tool\<close>

text \<open>
  Claim C10. When some row has the upper-cased query as its country code,
  \<open>search_country\<close> returns exactly the rows with that code, whatever the
  regular-expression library would do with the query: the result is the same with a
  library that fails on every pattern. The name searches run only when no row has that
  code (\<open>search_country_no_code\<close>).
\<close>

theorem exact_code_match_first:
  assumes "\<exists>r\<in>set df. Country_Code_sub r = Some (str_upper query)"
  shows "search_country re_compile str_upper df query
           = Inr (filter (\<lambda>r. Country_Code_sub r = Some (str_upper query)) df) \<and>
         search_country re_compile str_upper df query
           = search_country (\<lambda>pat. None) str_upper df query"
proof -
  from assms have ne: "filter (\<lambda>r. Country_Code_sub r = Some (str_upper query)) df \<noteq> []"
    by (simp add: filter_empty_conv)
  have "search_country rc str_upper df query
           = Inr (filter (\<lambda>r. Country_Code_sub r = Some (str_upper query)) df)" for rc
    using ne by (simp add: search_country_def Let_def)
  then show ?thesis by simp
qed

theorem exact_code_match_first_witness:
  "Country_Code_sub (example_subdivision ''US'' ''United States'' ''US-01'')
     = Some (upper ''us'') \<and>
   search_country (\<lambda>pat. None) upper
     [example_subdivision ''US'' ''United States'' ''US-01'',
      example_subdivision ''AU'' ''Australia'' ''AU-01''] ''us''
   = Inr [example_subdivision ''US'' ''United States'' ''US-01'']"
proof -
  let ?df = "[example_subdivision ''US'' ''United States'' ''US-01'',
              example_subdivision ''AU'' ''Australia'' ''AU-01'']"
  have u: "upper ''us'' = ''US''"
    by code_simp
  have h: "\<exists>r\<in>set ?df. Country_Code_sub r = Some (upper ''us'')"
    by (simp add: example_subdivision_def u)
  have f: "filter (\<lambda>r. Country_Code_sub r = Some (upper ''us'')) ?df
           = [example_subdivision ''US'' ''United States'' ''US-01'']"
    by (simp add: example_subdivision_def u)
  have c: "Country_Code_sub (example_subdivision ''US'' ''United States'' ''US-01'')
           = Some (upper ''us'')"
    by (simp add: example_subdivision_def u)
  show ?thesis
    using c exact_code_match_first[where df="?df" and str_upper=upper and query="''us''"
                 and re_compile="\<lambda>pat. None", OF h]
    unfolding f by simp
qed

lemma search_country_no_code:
  assumes "\<forall>r\<in>set df. Country_Code_sub r \<noteq> Some (str_upper query)"
  shows "search_country re_compile str_upper df query
         = (case re_compile (str_upper query) of
              None \<Rightarrow> Inl ReError
            | Some search \<Rightarrow>
                (let name_match = filter (\<lambda>r. case Country_Short_Name r of None \<Rightarrow> False
                                          | Some s \<Rightarrow> search (str_upper s)) df;
                     full_name_match = filter (\<lambda>r. case Country_Full_Name_sub r of None \<Rightarrow> False
                                          | Some s \<Rightarrow> search (str_upper s)) df
                 in if name_match \<noteq> [] then Inr name_match else Inr full_name_match))"
proof -
  from assms have "filter (\<lambda>r. Country_Code_sub r = Some (str_upper query)) df = []"
    by (simp add: filter_empty_conv)
  then show ?thesis
    by (simp add: search_country_def str_contains_def Let_def split: option.splits)
qed

end
